theory Spec2Isabelle
  imports Complex_Main "HOL-Library.Sublist"
begin

section \<open>Strings as Python sees them\<close>

text \<open>
  A string is a list of characters, each a code point below 256. Whitespace is what
  \<^verbatim>\<open>str.split()\<close> and \<^verbatim>\<open>str.strip()\<close> treat as whitespace among these: tab, line feed,
  vertical tab, form feed, carriage return, the four separators 0x1C..0x1F, the space, the
  next-line character 0x85 and the no-break space 0xA0.
\<close>

definition is_space :: "char \<Rightarrow> bool" where
  "is_space c = (c \<in> set [CHR 0x09, CHR 0x0A, CHR 0x0B, CHR 0x0C, CHR 0x0D,
                           CHR 0x1C, CHR 0x1D, CHR 0x1E, CHR 0x1F, CHR '' '',
                           CHR 0x85, CHR 0xA0])"

text \<open>\<^verbatim>\<open>text.split()\<close>: the maximal runs of non-whitespace, in order.\<close>

fun split_acc :: "string \<Rightarrow> string \<Rightarrow> string list" where
  "split_acc acc [] = (if acc = [] then [] else [acc])"
| "split_acc acc (c # cs) =
     (if is_space c then (if acc = [] then split_acc [] cs else acc # split_acc [] cs)
      else split_acc (acc @ [c]) cs)"

definition py_split :: "string \<Rightarrow> string list" where
  "py_split s = split_acc [] s"

text \<open>\<^verbatim>\<open>sep.join(xs)\<close>\<close>

fun join :: "string \<Rightarrow> string list \<Rightarrow> string" where
  "join sep [] = []"
| "join sep [x] = x"
| "join sep (x # y # ys) = x @ sep @ join sep (y # ys)"

definition py_strip :: "string \<Rightarrow> string" where
  "py_strip s = rev (dropWhile is_space (rev (dropWhile is_space s)))"

text \<open>\<^verbatim>\<open>str.lower()\<close>: the capital letters A to Z, and 0xC0 to 0xDE without the multiplication
  sign 0xD7, move up by 32.\<close>

definition lower_char :: "char \<Rightarrow> char" where
  "lower_char c =
     (let n = (of_char c :: nat) in
      if (65 \<le> n \<and> n \<le> 90) \<or> (192 \<le> n \<and> n \<le> 222 \<and> n \<noteq> 215) then char_of (n + 32) else c)"

definition lower :: "string \<Rightarrow> string" where
  "lower s = map lower_char s"

text \<open>\<^verbatim>\<open>k in s\<close> on strings: \<open>k\<close> occurs in \<open>s\<close> as a contiguous run.\<close>

fun contains :: "string \<Rightarrow> string \<Rightarrow> bool" where
  "contains k [] = (k = [])"
| "contains k (c # cs) = (prefix k (c # cs) \<or> contains k cs)"

text \<open>utils.py, \<^verbatim>\<open>clean_text\<close>: empty (or None) gives the empty string, otherwise the words
  joined by single spaces.\<close>

definition clean_text :: "string \<Rightarrow> string" where
  "clean_text text = (if text = [] then [] else join '' '' (py_split text))"

text \<open>\<^verbatim>\<open>a or b\<close> on values that may be missing (None) or empty: the first truthy one.\<close>

definition py_or :: "string option \<Rightarrow> string option \<Rightarrow> string option" where
  "py_or a b = (case a of Some s \<Rightarrow> (if s \<noteq> [] then Some s else b) | None \<Rightarrow> b)"

section \<open>Numbers\<close>

text \<open>
  Python floats are modelled as exact reals. \<^verbatim>\<open>round(x, n)\<close> rounds to \<open>n\<close> decimals, ties
  to the even neighbour.
\<close>

definition round_half_even :: "real \<Rightarrow> int" where
  "round_half_even y =
     (let f = \<lfloor>y\<rfloor>; d = y - of_int f in
      if d < 1 / 2 then f else if 1 / 2 < d then f + 1 else if even f then f else f + 1)"

definition py_round :: "real \<Rightarrow> nat \<Rightarrow> real" where
  "py_round x n = of_int (round_half_even (x * 10 ^ n)) / 10 ^ n"

section \<open>The DOM tree\<close>

text \<open>
  The tree the DOM provider (BeautifulSoup on lxml) hands over: a node is a text string or a
  tag with a name, its attributes and its children in order. The provider stores the
  \<^verbatim>\<open>class\<close> attribute as the list of its tokens (absent: \<open>None\<close>) and every other attribute the
  code reads as one string, so \<^verbatim>\<open>isinstance(value, list)\<close> holds for \<^verbatim>\<open>class\<close> only.
  A soup is the list of top-level nodes of a document.
\<close>

datatype node =
  Text string
| Element (tag: string) (classes: "string list option") (attrs: "(string \<times> string) list")
    (children: "node list")

type_synonym soup = "node list"

definition is_tag :: "node \<Rightarrow> bool" where
  "is_tag n = (case n of Text _ \<Rightarrow> False | Element _ _ _ _ \<Rightarrow> True)"

text \<open>\<^verbatim>\<open>element.get(key)\<close> for a single-valued attribute.\<close>

definition get_attr :: "node \<Rightarrow> string \<Rightarrow> string option" where
  "get_attr n k = (case n of Text _ \<Rightarrow> None | Element _ _ ats _ \<Rightarrow> map_of ats k)"

text \<open>A tag followed by the tags below it, in document order.\<close>

fun elements :: "node \<Rightarrow> node list" where
  "elements (Text s) = []"
| "elements (Element t cl ats cs) = Element t cl ats cs # concat (map elements cs)"

definition soup_elements :: "soup \<Rightarrow> node list" where
  "soup_elements s = concat (map elements s)"

text \<open>\<^verbatim>\<open>element.find_all(...)\<close> searches below the element, never the element itself.\<close>

definition descendants :: "node \<Rightarrow> node list" where
  "descendants n = (case n of Text _ \<Rightarrow> [] | Element _ _ _ cs \<Rightarrow> concat (map elements cs))"

definition has_name :: "string list \<Rightarrow> node \<Rightarrow> bool" where
  "has_name names n = (case n of Text _ \<Rightarrow> False | Element t _ _ _ \<Rightarrow> t \<in> set names)"

definition find_all :: "string list \<Rightarrow> node \<Rightarrow> node list" where
  "find_all names n = filter (has_name names) (descendants n)"

definition soup_find_all :: "string list \<Rightarrow> soup \<Rightarrow> node list" where
  "soup_find_all names s = filter (has_name names) (soup_elements s)"

text \<open>All text strings of a node, in document order.\<close>

fun strings :: "node \<Rightarrow> string list" where
  "strings (Text s) = [s]"
| "strings (Element t cl ats cs) = concat (map strings cs)"

text \<open>\<^verbatim>\<open>get_text()\<close>: the strings concatenated.\<close>

definition get_text :: "node \<Rightarrow> string" where
  "get_text n = concat (strings n)"

text \<open>\<^verbatim>\<open>get_text(" ", strip=True)\<close>: each string stripped, the empty ones dropped, the rest
  joined by one space.\<close>

definition get_text_sep :: "node \<Rightarrow> string" where
  "get_text_sep n = join '' '' (filter (\<lambda>s. s \<noteq> []) (map py_strip (strings n)))"

section \<open>The noise filter\<close>

definition NOISE_KEYWORDS :: "string list" where
  "NOISE_KEYWORDS =
    [''nav'', ''menu'', ''footer'', ''header'', ''subscribe'', ''metered'', ''paywall'',
     ''share'', ''social'', ''toolbar'', ''breadcrumbs'', ''breadcrumb'', ''cookie'',
     ''banner'', ''popup'', ''modal'', ''adv'', ''advert'', ''ads'', ''sponsor'',
     ''related'', ''recommend'', ''newsletter'', ''comment'', ''comments'', ''form-'',
     ''promo'', ''utility'', ''widget'', ''sidebar'', ''login'', ''signup'', ''consent'',
     ''gdpr'', ''tracking'', ''notification'', ''overlay'', ''player-controls'',
     ''gallery'', ''carousel'', ''slider'', ''tags'', ''taglist'', ''pagination'']"

definition ARTICLE_HINTS :: "string list" where
  "ARTICLE_HINTS =
    [''article'', ''story'', ''content'', ''body'', ''post'', ''entry'', ''main'',
     ''text'', ''read'', ''news'', ''detail'']"

text \<open>The lower-cased values collected by the loop of \<^verbatim>\<open>_should_skip_element\<close> over
  class, id, name, aria-label, data-track-label, data-component and data-testid.\<close>

definition attribute_bag :: "string list option \<Rightarrow> (string \<times> string) list \<Rightarrow> string list" where
  "attribute_bag cl ats =
     (case cl of Some vs \<Rightarrow> map lower (filter (\<lambda>v. v \<noteq> []) vs) | None \<Rightarrow> []) @
     concat (map (\<lambda>k. case map_of ats k of
                         Some v \<Rightarrow> (if v \<noteq> [] then [lower v] else [])
                       | None \<Rightarrow> [])
       [''id'', ''name'', ''aria-label'', ''data-track-label'', ''data-component'',
        ''data-testid''])"

fun should_skip_element :: "node \<Rightarrow> bool" where
  "should_skip_element (Text s) = False"
| "should_skip_element (Element t cl ats cs) =
     (if t \<in> set [''nav'', ''header'', ''footer'', ''aside''] then True
      else
        let role = lower (case map_of ats ''role'' of Some r \<Rightarrow> r | None \<Rightarrow> []) in
        if role \<in> set [''navigation'', ''banner'', ''complementary'', ''contentinfo'', ''search'']
        then True
        else
          let attributes = attribute_bag cl ats in
          if attributes \<noteq> [] then
            (let attrs = join '' '' attributes in
             if list_ex (\<lambda>keyword. contains keyword attrs) NOISE_KEYWORDS then
               (if list_ex (\<lambda>hint. contains hint attrs) ARTICLE_HINTS then False else True)
             else False)
          else False)"

text \<open>
  \<^verbatim>\<open>element.decompose()\<close> removes a tag with everything below it. Both loops of
  \<^verbatim>\<open>_prepare_content_soup\<close> run over a list of tags fixed before the loop, in document order;
  a tag below one already decomposed has lost its name and attributes, so the test is false
  on it and nothing more happens there. The test reads the tag's own name and attributes only,
  so each loop removes exactly the subtrees whose root satisfies it.
\<close>

fun decompose_all :: "(node \<Rightarrow> bool) \<Rightarrow> node \<Rightarrow> node" where
  "decompose_all P (Text s) = Text s"
| "decompose_all P (Element t cl ats cs) =
     Element t cl ats (map (decompose_all P) (filter (\<lambda>c. \<not> P c) cs))"

definition decompose_soup :: "(node \<Rightarrow> bool) \<Rightarrow> soup \<Rightarrow> soup" where
  "decompose_soup P s = map (decompose_all P) (filter (\<lambda>c. \<not> P c) s)"

text \<open>\<^verbatim>\<open>_prepare_content_soup\<close>, on the parsed document.\<close>

definition prepare_content_soup :: "soup \<Rightarrow> soup" where
  "prepare_content_soup s =
     decompose_soup should_skip_element
       (decompose_soup (has_name [''script'', ''style'', ''noscript'', ''iframe'', ''svg'', ''canvas'']) s)"

section \<open>External collaborators\<close>

text \<open>
  What the code takes from its libraries and is not part of this repository, as parameters:
  the DOM provider's parser (\<^verbatim>\<open>BeautifulSoup(markup, 'lxml')\<close>) and serialiser
  (\<^verbatim>\<open>element.decode()\<close>), URL resolution (\<^verbatim>\<open>urljoin\<close>) and the host of a URL
  (\<^verbatim>\<open>urlparse(u).netloc\<close>), and the readability summariser, which gives the title, the short
  title and the summary fragment of a document, or \<open>None\<close> where it raises.
\<close>

record provider =
  bs_parse :: "string \<Rightarrow> soup"
  decode :: "node \<Rightarrow> string"
  urljoin :: "string \<Rightarrow> string \<Rightarrow> string"
  netloc :: "string \<Rightarrow> string"
  readability :: "string \<Rightarrow> (string \<times> string \<times> string) option"

section \<open>Candidate blocks\<close>

text \<open>The dict built by \<^verbatim>\<open>_build_block_info\<close>. Its \<^verbatim>\<open>dom_path\<close> entry, a description of the
  tag's ancestors that nothing else reads, is left out.\<close>

record block =
  block_id :: string
  block_tag :: string
  block_classes :: "string list"
  heading :: string
  paragraphs :: "string list"
  html :: string
  text_preview :: string
  word_count :: nat
  link_density :: real
  score :: real

text \<open>\<^verbatim>\<open>_score_block\<close>\<close>

definition score_block :: "nat \<Rightarrow> real \<Rightarrow> nat \<Rightarrow> string \<Rightarrow> real" where
  "score_block wc ld paragraph_count hd_text =
     (let heading_bonus = (if hd_text \<noteq> [] then 1.25 else 1.0);
          paragraph_bonus = 1 + real (min paragraph_count 5) * 0.1;
          link_penalty = 1.0 - min ld 0.9
      in real wc * heading_bonus * paragraph_bonus * link_penalty)"

text \<open>The index of a block in its identifier: a position of the enumeration
  (\<^verbatim>\<open>block_7\<close>) or a selector of the schema strategy (\<^verbatim>\<open>block_schema_2\<close>).\<close>

fun digits :: "nat \<Rightarrow> string" where
  "digits n = (if n < 10 then [char_of (48 + n)] else digits (n div 10) @ [char_of (48 + n mod 10)])"

datatype block_index = Position nat | Schema nat

definition index_text :: "block_index \<Rightarrow> string" where
  "index_text i = (case i of Position n \<Rightarrow> digits n | Schema n \<Rightarrow> ''schema_'' @ digits n)"

text \<open>\<^verbatim>\<open>_build_block_info\<close>: \<open>None\<close> for anything that is not a tag and for a tag of fewer than
  40 words.\<close>

definition build_block_info :: "provider \<Rightarrow> node \<Rightarrow> block_index \<Rightarrow> block option" where
  "build_block_info pv element idx =
     (if \<not> is_tag element then None
      else
        let text = clean_text (get_text_sep element);
            wc = length (py_split text)
        in
        if wc < 40 then None
        else
          let link_text = join '' '' (map (\<lambda>a. clean_text (get_text_sep a)) (find_all [''a''] element));
              ld = real (length link_text) / real (max (length text) 1);
              ps = filter (\<lambda>p. p \<noteq> []) (map (\<lambda>p. clean_text (get_text p)) (find_all [''p''] element));
              heading_text = (case find_all [''h1'', ''h2'', ''h3''] element of
                                [] \<Rightarrow> []
                              | h # _ \<Rightarrow> clean_text (get_text h));
              sc = score_block wc ld (length ps) heading_text
          in
          Some \<lparr> block_id = ''block_'' @ index_text idx,
                 block_tag = tag element,
                 block_classes = (case classes element of Some cl \<Rightarrow> cl | None \<Rightarrow> []),
                 heading = heading_text,
                 paragraphs = ps,
                 html = decode pv element,
                 text_preview = take 280 text @ (if 280 < length text then ''...'' else []),
                 word_count = wc,
                 link_density = py_round ld 3,
                 score = py_round sc 2 \<rparr>)"

text \<open>The loop of \<^verbatim>\<open>_extract_content_blocks\<close> over the enumerated tags.\<close>

fun collect_blocks :: "provider \<Rightarrow> (nat \<times> node) list \<Rightarrow> block list" where
  "collect_blocks pv [] = []"
| "collect_blocks pv ((idx, element) # rest) =
     (if should_skip_element element then collect_blocks pv rest
      else case build_block_info pv element (Position idx) of
             None \<Rightarrow> collect_blocks pv rest
           | Some b \<Rightarrow> b # collect_blocks pv rest)"

text \<open>\<^verbatim>\<open>_extract_content_blocks\<close>: the sort is stable and descending in the score, which is
  an ascending stable sort on the negated score; then the first ten.\<close>

definition extract_content_blocks :: "provider \<Rightarrow> soup \<Rightarrow> block list" where
  "extract_content_blocks pv s =
     (let candidates = collect_blocks pv
            (enumerate 0 (soup_find_all [''article'', ''main'', ''section'', ''div''] s))
      in take 10 (sort_key (\<lambda>item. - score item) candidates))"

section \<open>The schema strategy\<close>

text \<open>The four shapes of selector the schema strategy uses, and \<^verbatim>\<open>select_one\<close>: the first tag
  of the document, in document order, that the selector matches.\<close>

datatype selector =
  AttrEquals string string
| AttrContains string string
| TagNamed string
| HasClass string

fun matches :: "selector \<Rightarrow> node \<Rightarrow> bool" where
  "matches sel (Text s) = False"
| "matches (AttrEquals k v) (Element t cl ats cs) = (map_of ats k = Some v)"
| "matches (AttrContains k v) (Element t cl ats cs) =
     (case map_of ats k of Some w \<Rightarrow> contains v w | None \<Rightarrow> False)"
| "matches (TagNamed n) (Element t cl ats cs) = (t = n)"
| "matches (HasClass c) (Element t cl ats cs) =
     (case cl of Some vs \<Rightarrow> c \<in> set vs | None \<Rightarrow> False)"

definition select_one :: "selector \<Rightarrow> soup \<Rightarrow> node option" where
  "select_one sel s = List.find (matches sel) (soup_elements s)"

definition schema_selectors :: "selector list" where
  "schema_selectors =
     [AttrEquals ''itemprop'' ''articleBody'',
      AttrContains ''itemtype'' ''Article'',
      TagNamed ''article'',
      AttrEquals ''role'' ''main'',
      HasClass ''article-body'',
      HasClass ''story__content'',
      HasClass ''article__content'']"

text \<open>The loop of \<^verbatim>\<open>_extract_schema_block\<close>: the first selector whose match is not noise and
  gives a block.\<close>

fun probe_selectors :: "provider \<Rightarrow> soup \<Rightarrow> (nat \<times> selector) list \<Rightarrow> block option" where
  "probe_selectors pv s [] = None"
| "probe_selectors pv s ((idx, sel) # rest) =
     (case select_one sel s of
        None \<Rightarrow> probe_selectors pv s rest
      | Some element \<Rightarrow>
          (if should_skip_element element then probe_selectors pv s rest
           else case build_block_info pv element (Schema idx) of
                  Some b \<Rightarrow> Some b
                | None \<Rightarrow> probe_selectors pv s rest))"

definition extract_schema_block :: "provider \<Rightarrow> soup \<Rightarrow> block option" where
  "extract_schema_block pv s = probe_selectors pv s (enumerate 0 schema_selectors)"

text \<open>Lines 103 to 106 of \<^verbatim>\<open>parse_html\<close>: the ranked blocks, with the schema block, when there
  is one, inserted in front.\<close>

definition candidate_list :: "provider \<Rightarrow> soup \<Rightarrow> block list" where
  "candidate_list pv content_soup =
     (let content_blocks = extract_content_blocks pv content_soup;
          schema_block = extract_schema_block pv content_soup
      in case schema_block of Some b \<Rightarrow> b # content_blocks | None \<Rightarrow> content_blocks)"

section \<open>The readability strategy\<close>

text \<open>
  The main-content dict. A key that some of the three producers leave out is an option
  (\<open>None\<close>: the key is absent); the empty dict \<^verbatim>\<open>{}\<close> is \<open>None\<close> of
  \<open>main_content option\<close>. The \<^verbatim>\<open>dom_path\<close> of the heuristic variant is left out, as in the
  block.
\<close>

record main_content =
  mc_source :: string
  mc_title :: "string option"
  mc_short_title :: "string option"
  mc_summary_html :: "string option"
  mc_text :: string
  mc_paragraphs :: "string list"
  mc_word_count :: nat
  mc_score :: "real option"
  mc_html :: "string option"
  mc_reading_time_minutes :: real
  mc_confidence :: real

text \<open>\<^verbatim>\<open>_estimate_reading_time\<close>\<close>

definition estimate_reading_time :: "nat \<Rightarrow> real" where
  "estimate_reading_time wc = (if wc \<le> 0 then 0 else py_round (max (real wc / 200) 0.1) 2)"

text \<open>\<^verbatim>\<open>_extract_main_content\<close>: any failure of the summariser, and a summary without text,
  give the empty dict.\<close>

definition extract_main_content :: "provider \<Rightarrow> string \<Rightarrow> main_content option" where
  "extract_main_content pv html_content =
     (case readability pv html_content of
        None \<Rightarrow> None
      | Some (doc_title, doc_short_title, summary_html) \<Rightarrow>
          let summary_soup = bs_parse pv summary_html;
              ps = filter (\<lambda>p. p \<noteq> [])
                     (map (\<lambda>p. clean_text (get_text p)) (soup_find_all [''p'', ''li''] summary_soup));
              text = py_strip (join [CHR 0x0A, CHR 0x0A] ps)
          in
          if text = [] then None
          else
            let wc = length (py_split text) in
            Some \<lparr> mc_source = ''readability'',
                   mc_title = Some (clean_text doc_title),
                   mc_short_title = Some (clean_text doc_short_title),
                   mc_summary_html = Some summary_html,
                   mc_text = text,
                   mc_paragraphs = ps,
                   mc_word_count = wc,
                   mc_score = None,
                   mc_html = None,
                   mc_reading_time_minutes = estimate_reading_time wc,
                   mc_confidence = min 0.95 (0.6 + real wc / 1500) \<rparr>)"

section \<open>The content arbiter\<close>

definition unknown_content :: "string \<Rightarrow> main_content" where
  "unknown_content fallback_title =
     \<lparr> mc_source = ''unknown'',
       mc_title = Some fallback_title,
       mc_short_title = None,
       mc_summary_html = None,
       mc_text = [],
       mc_paragraphs = [],
       mc_word_count = 0,
       mc_score = None,
       mc_html = None,
       mc_reading_time_minutes = 0,
       mc_confidence = 0.2 \<rparr>"

definition heuristic_content :: "block \<Rightarrow> string \<Rightarrow> main_content" where
  "heuristic_content best fallback_title =
     (let joined = py_strip (join [CHR 0x0A, CHR 0x0A] (paragraphs best));
          text = (if joined \<noteq> [] then joined else text_preview best);
          wc = (if word_count best \<noteq> 0 then word_count best else length (py_split text))
      in
      \<lparr> mc_source = ''heuristic'',
        mc_title = Some (if heading best \<noteq> [] then heading best else fallback_title),
        mc_short_title = None,
        mc_summary_html = None,
        mc_text = text,
        mc_paragraphs = paragraphs best,
        mc_word_count = wc,
        mc_score = Some (score best),
        mc_html = Some (html best),
        mc_reading_time_minutes = estimate_reading_time wc,
        mc_confidence = min 0.85 (0.4 + min (score best / 1500) 0.45) \<rparr>)"

text \<open>\<^verbatim>\<open>_choose_main_content\<close>. \<^verbatim>\<open>setdefault('title', fallback_title)\<close> writes the title only where
  the key is absent.\<close>

definition choose_main_content ::
    "main_content option \<Rightarrow> block list \<Rightarrow> string \<Rightarrow> main_content" where
  "choose_main_content readability_content blocks fallback_title =
     (let readability_words =
            (case readability_content of Some rc \<Rightarrow> mc_word_count rc | None \<Rightarrow> 0)
      in
      case readability_content of
        Some rc \<Rightarrow>
          (if 80 \<le> readability_words then
             rc \<lparr> mc_title := (case mc_title rc of None \<Rightarrow> Some fallback_title | Some t \<Rightarrow> Some t) \<rparr>
           else (case blocks of
                   best # _ \<Rightarrow> heuristic_content best fallback_title
                 | [] \<Rightarrow> rc))
      | None \<Rightarrow>
          (case blocks of
             best # _ \<Rightarrow> heuristic_content best fallback_title
           | [] \<Rightarrow> unknown_content fallback_title))"

section \<open>Links and media\<close>

record link =
  link_text :: string
  href :: string
  is_external :: bool
  link_title :: string

text \<open>The loop of \<^verbatim>\<open>_extract_links\<close>: append, then stop once the limit is reached.\<close>

definition make_link :: "provider \<Rightarrow> string \<Rightarrow> node \<Rightarrow> link" where
  "make_link pv base_url a =
     (let absolute_url = urljoin pv base_url (case get_attr a ''href'' of Some h \<Rightarrow> h | None \<Rightarrow> []) in
      \<lparr> link_text = clean_text (get_text a),
        href = absolute_url,
        is_external = (netloc pv base_url \<noteq> netloc pv absolute_url),
        link_title = (case get_attr a ''title'' of Some t \<Rightarrow> t | None \<Rightarrow> []) \<rparr>)"

fun links_loop :: "provider \<Rightarrow> string \<Rightarrow> nat \<Rightarrow> link list \<Rightarrow> node list \<Rightarrow> link list" where
  "links_loop pv base_url limit links [] = links"
| "links_loop pv base_url limit links (a # rest) =
     (let links' = links @ [make_link pv base_url a] in
      if limit \<le> length links' then links' else links_loop pv base_url limit links' rest)"

definition extract_links :: "provider \<Rightarrow> soup \<Rightarrow> string \<Rightarrow> nat \<Rightarrow> link list" where
  "extract_links pv s base_url limit =
     links_loop pv base_url limit []
       (filter (\<lambda>a. get_attr a ''href'' \<noteq> None) (soup_find_all [''a''] s))"

text \<open>\<^verbatim>\<open>_extract_links_from_main\<close>\<close>

definition extract_links_from_main :: "provider \<Rightarrow> main_content \<Rightarrow> string \<Rightarrow> link list" where
  "extract_links_from_main pv main base_url =
     (case py_or (py_or (mc_summary_html main) (mc_html main)) None of
        None \<Rightarrow> []
      | Some html_fragment \<Rightarrow> extract_links pv (bs_parse pv html_fragment) base_url 40)"

record image =
  img_src :: string
  img_alt :: string
  img_title :: string

record media =
  hero_image :: "string option"
  gallery :: "image list"
  videos :: "string list"

definition fragment_images :: "provider \<Rightarrow> string \<Rightarrow> soup \<Rightarrow> image list" where
  "fragment_images pv base_url fragment_soup =
     concat (map (\<lambda>img.
        case py_or (py_or (get_attr img ''src'') (get_attr img ''data-src'')) None of
          None \<Rightarrow> []
        | Some src \<Rightarrow>
            [\<lparr> img_src = urljoin pv base_url src,
               img_alt = clean_text (case get_attr img ''alt'' of Some v \<Rightarrow> v | None \<Rightarrow> []),
               img_title = clean_text (case get_attr img ''title'' of Some v \<Rightarrow> v | None \<Rightarrow> []) \<rparr>])
       (soup_find_all [''img''] fragment_soup))"

definition fragment_videos :: "provider \<Rightarrow> string \<Rightarrow> soup \<Rightarrow> string list" where
  "fragment_videos pv base_url fragment_soup =
     concat (map (\<lambda>video.
        let src = (case find_all [''source''] video of
                     source # _ \<Rightarrow> get_attr source ''src''
                   | [] \<Rightarrow> get_attr video ''src'')
        in case py_or src None of
             None \<Rightarrow> []
           | Some v \<Rightarrow> [urljoin pv base_url v])
       (soup_find_all [''video''] fragment_soup))"

text \<open>\<^verbatim>\<open>soup.find('iframe', attrs={'src': True})\<close>: the first iframe that has a src attribute.\<close>

definition find_iframe :: "soup \<Rightarrow> node option" where
  "find_iframe s = List.find (\<lambda>e. get_attr e ''src'' \<noteq> None) (soup_find_all [''iframe''] s)"

text \<open>\<^verbatim>\<open>_extract_article_media\<close>\<close>

definition extract_article_media ::
    "provider \<Rightarrow> main_content \<Rightarrow> (string \<rightharpoonup> string) \<Rightarrow> string \<Rightarrow> soup \<Rightarrow> media" where
  "extract_article_media pv main meta base_url s =
     (let hero = py_or (meta ''og:image'') (py_or (meta ''twitter:image'') (meta ''image_thumb_src''));
          hero_url = (case py_or hero None of Some h \<Rightarrow> Some (urljoin pv base_url h) | None \<Rightarrow> None);
          fragment = py_or (mc_summary_html main) (mc_html main);
          found = (case py_or fragment None of
                     Some f \<Rightarrow> (fragment_images pv base_url (bs_parse pv f),
                                fragment_videos pv base_url (bs_parse pv f))
                   | None \<Rightarrow> ([], []));
          vids = (case find_iframe s of
                    Some iframe \<Rightarrow>
                      snd found @ [urljoin pv base_url
                         (case get_attr iframe ''src'' of Some v \<Rightarrow> v | None \<Rightarrow> [])]
                  | None \<Rightarrow> snd found)
      in \<lparr> hero_image = hero_url, gallery = take 5 (fst found), videos = take 3 vids \<rparr>)"

section \<open>The article and the parse of a page\<close>

text \<open>\<^verbatim>\<open>_extract_meta\<close>: one step per meta tag, a later tag overwriting an earlier one of the
  same key.\<close>

definition meta_step :: "node \<Rightarrow> (string \<rightharpoonup> string) \<Rightarrow> (string \<rightharpoonup> string)" where
  "meta_step t m =
     (let content = py_or (get_attr t ''content'') None in
      case (py_or (get_attr t ''name'') None, content) of
        (Some n, Some c) \<Rightarrow> m(n \<mapsto> c)
      | _ \<Rightarrow>
        (case (py_or (get_attr t ''property'') None, content) of
           (Some q, Some c) \<Rightarrow> m(q \<mapsto> c)
         | _ \<Rightarrow>
           (case py_or (get_attr t ''charset'') None of
              Some ch \<Rightarrow> m(''charset'' \<mapsto> ch)
            | None \<Rightarrow> m)))"

definition extract_meta :: "soup \<Rightarrow> (string \<rightharpoonup> string)" where
  "extract_meta s = fold meta_step (soup_find_all [''meta''] s) Map.empty"

text \<open>\<^verbatim>\<open>tag.string\<close>: the text of a tag whose only child is a string, looking through only
  children that are tags.\<close>

fun node_string :: "node \<Rightarrow> string option" where
  "node_string (Text s) = Some s"
| "node_string (Element t cl ats [c]) = node_string c"
| "node_string (Element t cl ats cs) = None"

definition page_title :: "soup \<Rightarrow> string" where
  "page_title s =
     (case soup_find_all [''title''] s of
        [] \<Rightarrow> []
      | t # _ \<Rightarrow> clean_text (case node_string t of Some v \<Rightarrow> v | None \<Rightarrow> []))"

record body =
  body_text :: string
  body_paragraphs :: "string list"
  body_word_count :: nat
  body_reading_time_minutes :: real
  body_source :: string
  body_html :: string

record stats =
  confidence :: real
  paragraph_count :: nat
  has_media :: bool
  has_links :: bool

text \<open>The article record, without the fields that come from the page's metadata alone
  (subtitle, section, authors, dates, excerpt, keywords, tags) and without the lists and
  tables of the fragment.\<close>

record article =
  art_title :: string
  art_body :: body
  art_media :: media
  art_links :: "link list"
  art_stats :: stats

text \<open>\<^verbatim>\<open>_build_article_section\<close>\<close>

definition build_article_section ::
    "provider \<Rightarrow> main_content option \<Rightarrow> block list \<Rightarrow> string \<Rightarrow> (string \<rightharpoonup> string) \<Rightarrow>
     soup \<Rightarrow> string \<Rightarrow> article" where
  "build_article_section pv readability_content blocks fallback_title meta content_soup base_url =
     (let main = choose_main_content readability_content blocks fallback_title;
          metadata_title = py_or (meta ''og:title'') (py_or (meta ''twitter:title'') (meta ''title''));
          md = extract_article_media pv main meta base_url content_soup;
          article_links = extract_links_from_main pv main base_url;
          fragment = (case py_or (mc_summary_html main) (mc_html main) of Some f \<Rightarrow> f | None \<Rightarrow> []);
          bd = \<lparr> body_text = py_strip (mc_text main),
                 body_paragraphs = mc_paragraphs main,
                 body_word_count = mc_word_count main,
                 body_reading_time_minutes = mc_reading_time_minutes main,
                 body_source = mc_source main,
                 body_html = fragment \<rparr>;
          st = \<lparr> confidence = py_round (mc_confidence main) 2,
                 paragraph_count = length (body_paragraphs bd),
                 has_media = (py_or (hero_image md) None \<noteq> None \<or> videos md \<noteq> []),
                 has_links = (article_links \<noteq> []) \<rparr>
      in
      \<lparr> art_title = (case py_or (mc_title main) (py_or metadata_title (Some fallback_title)) of
                       Some t \<Rightarrow> t | None \<Rightarrow> []),
        art_body = bd,
        art_media = md,
        art_links = article_links,
        art_stats = st \<rparr>)"

text \<open>\<^verbatim>\<open>parse_html\<close>, without the page context (headings, related links and the summary of
  the candidates), which is derived from the same values and read by nothing here.\<close>

record parsed_info =
  pi_title :: string
  pi_base_url :: string
  pi_domain :: string
  pi_meta :: "string \<rightharpoonup> string"
  pi_article :: article

definition parse_html :: "provider \<Rightarrow> string \<Rightarrow> string \<Rightarrow> parsed_info" where
  "parse_html pv html_content url =
     (let s = bs_parse pv html_content;
          content_soup = prepare_content_soup (bs_parse pv html_content);
          title = page_title s;
          meta = extract_meta s;
          readability_content = extract_main_content pv html_content;
          content_blocks = candidate_list pv content_soup
      in
      \<lparr> pi_title = title,
        pi_base_url = url,
        pi_domain = netloc pv url,
        pi_meta = meta,
        pi_article = build_article_section pv readability_content content_blocks title meta
                       content_soup url \<rparr>)"

section \<open>Example documents\<close>

text \<open>A provider for examples: every parse gives the soup \<open>s\<close>, the summariser gives \<open>r\<close>,
  URLs are left as they are.\<close>

definition example_provider :: "soup \<Rightarrow> (string \<times> string \<times> string) option \<Rightarrow> provider" where
  "example_provider s r =
     \<lparr> bs_parse = (\<lambda>markup. s),
       decode = (\<lambda>n. []),
       urljoin = (\<lambda>base u. u),
       netloc = (\<lambda>u. u),
       readability = (\<lambda>markup. r) \<rparr>"

definition words :: "nat \<Rightarrow> string" where
  "words n = join '' '' (replicate n ''w'')"

text \<open>A plain \<^verbatim>\<open>div\<close> of 40 words, and one marked as the article body.\<close>

definition div40 :: node where
  "div40 = Element ''div'' None [] [Text (words 40)]"

definition article_div40 :: node where
  "article_div40 = Element ''div'' None [(''itemprop'', ''articleBody'')] [Text (words 40)]"

definition page :: "node list \<Rightarrow> soup" where
  "page content = [Element ''html'' None [] [Element ''body'' None [] content]]"

text \<open>Ten blocks of 40 words, the first of which the schema strategy finds as well.\<close>

definition ten_blocks_page :: soup where
  "ten_blocks_page = page (article_div40 # replicate 9 div40)"

text \<open>A page of one paragraph of 50 words and no container, which the summariser returns
  whole.\<close>

definition short_page :: soup where
  "short_page = page [Element ''p'' None [] [Text (words 50)]]"

definition short_page_provider :: provider where
  "short_page_provider = example_provider short_page (Some (''T'', ''T'', ''<p>...</p>''))"

text \<open>Three blocks of 30 words each: no container reaches 40 words, the body has 90.\<close>

definition div30 :: node where
  "div30 = Element ''div'' None [] [Text (words 30)]"

definition small_blocks_provider :: provider where
  "small_blocks_provider = example_provider (page [div30, div30, div30]) None"

text \<open>A block of 30 words beside a paragraph of 40 words that is marked as the article body:
  no container reaches 40 words, the schema strategy finds the paragraph.\<close>

definition marked_paragraph :: node where
  "marked_paragraph = Element ''p'' None [(''itemprop'', ''articleBody'')] [Text (words 40)]"

definition marked_paragraph_provider :: provider where
  "marked_paragraph_provider = example_provider (page [div30, marked_paragraph]) None"

text \<open>A page whose only content is an embedded player.\<close>

definition iframe_page :: soup where
  "iframe_page = page [Element ''iframe'' None [(''src'', ''https://player.example/v/1'')] []]"

definition iframe_provider :: provider where
  "iframe_provider = example_provider iframe_page None"

text \<open>A page of one block of 40 words, with no summary.\<close>

definition one_block_provider :: provider where
  "one_block_provider = example_provider (page [div40]) None"

text \<open>A readability result of 80 words, and a block with a score of a thousand million.\<close>

definition readable80 :: main_content where
  "readable80 =
     \<lparr> mc_source = ''readability'',
       mc_title = Some ''Title'',
       mc_short_title = Some ''Title'',
       mc_summary_html = Some ''<p>...</p>'',
       mc_text = words 80,
       mc_paragraphs = [words 80],
       mc_word_count = 80,
       mc_score = None,
       mc_html = None,
       mc_reading_time_minutes = 0.4,
       mc_confidence = min 0.95 (0.6 + 80 / 1500) \<rparr>"

definition huge_block :: block where
  "huge_block =
     \<lparr> block_id = ''block_0'',
       block_tag = ''div'',
       block_classes = [],
       heading = ''H'',
       paragraphs = [words 40],
       html = [],
       text_preview = words 40,
       word_count = 40,
       link_density = 0,
       score = 1000000000 \<rparr>"

text \<open>A \<^verbatim>\<open>nav\<close> and a \<^verbatim>\<open>div\<close> of class \<^verbatim>\<open>sidebar article-body\<close>.\<close>

definition hinted_nav :: node where
  "hinted_nav = Element ''nav'' (Some [''sidebar'', ''article-body'']) [] []"

definition hinted_div :: node where
  "hinted_div = Element ''div'' (Some [''sidebar'', ''article-body'']) [] []"

section \<open>Rounding\<close>

lemma round_half_even_ge_floor: "\<lfloor>y\<rfloor> \<le> round_half_even y"
  by (simp add: round_half_even_def Let_def)

lemma round_half_even_lower: "of_int k \<le> y \<Longrightarrow> k \<le> round_half_even y"
proof -
  assume "of_int k \<le> y"
  then have "k \<le> \<lfloor>y\<rfloor>" by (simp add: le_floor_iff)
  with round_half_even_ge_floor [of y] show ?thesis by linarith
qed

lemma round_half_even_of_int: "round_half_even (of_int k) = k"
  by (simp add: round_half_even_def Let_def)

lemma round_half_even_upper: "y \<le> of_int k \<Longrightarrow> round_half_even y \<le> k"
proof (cases "y = of_int k")
  case True
  then show ?thesis by (simp add: round_half_even_of_int)
next
  case False
  assume "y \<le> of_int k"
  with False have "y < of_int k" by simp
  then have "\<lfloor>y\<rfloor> < k" by (simp add: floor_less_iff)
  moreover have "round_half_even y \<le> \<lfloor>y\<rfloor> + 1"
    by (simp add: round_half_even_def Let_def)
  ultimately show ?thesis by linarith
qed

lemma py_round_lower: "of_int k / 10 ^ n \<le> x \<Longrightarrow> of_int k / 10 ^ n \<le> py_round x n"
proof -
  assume a: "of_int k / 10 ^ n \<le> x"
  have "of_int k \<le> x * 10 ^ n"
    using a by (simp add: pos_divide_le_eq)
  then have "k \<le> round_half_even (x * 10 ^ n)" by (rule round_half_even_lower)
  then show ?thesis
    unfolding py_round_def by (simp add: divide_right_mono)
qed

lemma py_round_upper: "x \<le> of_int k / 10 ^ n \<Longrightarrow> py_round x n \<le> of_int k / 10 ^ n"
proof -
  assume a: "x \<le> of_int k / 10 ^ n"
  have "x * 10 ^ n \<le> of_int k"
    using a by (simp add: pos_le_divide_eq)
  then have "round_half_even (x * 10 ^ n) \<le> k" by (rule round_half_even_upper)
  then show ?thesis
    unfolding py_round_def by (simp add: divide_right_mono)
qed

lemma py_round_nonneg: "0 \<le> x \<Longrightarrow> 0 \<le> py_round x n"
  using py_round_lower [of 0 n x] by simp

section \<open>The arbiter prefers a sufficient readability result\<close>

text \<open>
  C1. Whenever the readability result is not empty and has at least 80 words, the arbiter
  returns it, whatever the candidate blocks are and however high they score; the fallback
  title is written into it only where it has no title entry.
\<close>

theorem readability_wins_from_80_words:
  "80 \<le> mc_word_count rc \<Longrightarrow>
   choose_main_content (Some rc) blocks fallback_title =
     rc \<lparr> mc_title := (case mc_title rc of None \<Rightarrow> Some fallback_title | Some t \<Rightarrow> Some t) \<rparr>"
  by (simp add: choose_main_content_def)

theorem readability_wins_from_80_words_witness:
  "80 \<le> mc_word_count readable80 \<and> 1500 < score huge_block \<and>
   choose_main_content (Some readable80) [huge_block] ''Fallback'' = readable80"
  using readability_wins_from_80_words [of readable80 "[huge_block]" "''Fallback''"]
  by (simp add: readable80_def huge_block_def)

section \<open>The score falls as the link density grows\<close>

text \<open>
  C6. With the word count, the paragraph count and the heading fixed, a higher link density
  never gives a higher score, and from a density of 0.9 on the score no longer changes.
\<close>

theorem score_block_antimono_link_density:
  "ld1 \<le> ld2 \<Longrightarrow>
   score_block wc ld2 pc h \<le> score_block wc ld1 pc h \<and>
   (9 / 10 \<le> ld1 \<longrightarrow> score_block wc ld2 pc h = score_block wc ld1 pc h)"
proof
  assume le: "ld1 \<le> ld2"
  have "1 - min ld2 (9 / 10) \<le> 1 - min ld1 (9 / 10)"
    using le by (simp add: min_def)
  then show "score_block wc ld2 pc h \<le> score_block wc ld1 pc h"
    unfolding score_block_def Let_def
    by (intro mult_left_mono) auto
  show "9 / 10 \<le> ld1 \<longrightarrow> score_block wc ld2 pc h = score_block wc ld1 pc h"
    using le by (simp add: score_block_def Let_def min_def)
qed

theorem score_block_antimono_link_density_witness:
  "(1 / 5 :: real) \<le> 1 / 2 \<and>
   score_block 100 (1 / 2) 3 ''H'' \<le> score_block 100 (1 / 5) 3 ''H'' \<and>
   (9 / 10 :: real) \<le> 19 / 20 \<and> (19 / 20 :: real) \<le> 1 \<and>
   score_block 100 1 3 ''H'' = score_block 100 (19 / 20) 3 ''H''"
  using score_block_antimono_link_density [of "1 / 5" "1 / 2" 100 3 "''H''"]
        score_block_antimono_link_density [of "19 / 20" 1 100 3 "''H''"]
  by simp

section \<open>Hints against noise\<close>

text \<open>
  C5, as stated, fails: the tag test and the role test come first, and a \<^verbatim>\<open>nav\<close> of class
  \<^verbatim>\<open>sidebar article-body\<close>, whose attribute bag holds a noise keyword and a hint, is removed.
\<close>

theorem hinted_nav_is_removed:
  "''sidebar'' \<in> set NOISE_KEYWORDS \<and>
   contains ''sidebar'' (join '' '' (attribute_bag (classes hinted_nav) (attrs hinted_nav))) \<and>
   ''article'' \<in> set ARTICLE_HINTS \<and>
   contains ''article'' (join '' '' (attribute_bag (classes hinted_nav) (attrs hinted_nav))) \<and>
   should_skip_element hinted_nav"
  by code_simp

text \<open>
  C5, amended. For every tag that is not one of nav, header, footer and aside and whose
  lower-cased role is not one of navigation, banner, complementary, contentinfo and search:
  if its attribute bag holds both a noise keyword and a hint, the removal test is false. So
  it is for a \<^verbatim>\<open>div\<close> of class \<^verbatim>\<open>sidebar article-body\<close>.
\<close>

theorem hint_overrides_noise:
  "t \<notin> set [''nav'', ''header'', ''footer'', ''aside''] \<Longrightarrow>
   lower (case map_of ats ''role'' of Some r \<Rightarrow> r | None \<Rightarrow> [])
     \<notin> set [''navigation'', ''banner'', ''complementary'', ''contentinfo'', ''search''] \<Longrightarrow>
   list_ex (\<lambda>keyword. contains keyword (join '' '' (attribute_bag cl ats))) NOISE_KEYWORDS \<Longrightarrow>
   list_ex (\<lambda>hint. contains hint (join '' '' (attribute_bag cl ats))) ARTICLE_HINTS \<Longrightarrow>
   \<not> should_skip_element (Element t cl ats cs)"
  by (simp add: Let_def)

theorem hint_overrides_noise_witness:
  "list_ex (\<lambda>keyword. contains keyword (join '' '' (attribute_bag (Some [''sidebar'', ''article-body'']) [])))
     NOISE_KEYWORDS \<and>
   list_ex (\<lambda>hint. contains hint (join '' '' (attribute_bag (Some [''sidebar'', ''article-body'']) [])))
     ARTICLE_HINTS \<and>
   \<not> should_skip_element hinted_div"
proof -
  have t: "''div'' \<notin> set [''nav'', ''header'', ''footer'', ''aside'']"
    by simp
  have r: "lower (case map_of ([] :: (string \<times> string) list) ''role'' of Some r \<Rightarrow> r | None \<Rightarrow> [])
             \<notin> set [''navigation'', ''banner'', ''complementary'', ''contentinfo'', ''search'']"
    by (simp add: lower_def)
  have n: "list_ex (\<lambda>keyword. contains keyword
             (join '' '' (attribute_bag (Some [''sidebar'', ''article-body'']) []))) NOISE_KEYWORDS"
    by code_simp
  have h: "list_ex (\<lambda>hint. contains hint
             (join '' '' (attribute_bag (Some [''sidebar'', ''article-body'']) []))) ARTICLE_HINTS"
    by code_simp
  show ?thesis
    using hint_overrides_noise [OF t r n h, of "[]"] n h
    unfolding hinted_div_def by blast
qed

section \<open>No block under 40 words\<close>

lemma build_block_info_word_count:
  "build_block_info pv e i = Some b \<Longrightarrow> 40 \<le> word_count b"
  by (auto simp: build_block_info_def Let_def split: if_splits)

lemma collect_blocks_built:
  "b \<in> set (collect_blocks pv xs) \<Longrightarrow> \<exists>e i. build_block_info pv e i = Some b"
  by (induction pv xs rule: collect_blocks.induct) (auto split: if_splits option.splits)

lemma probe_selectors_built:
  "probe_selectors pv s xs = Some b \<Longrightarrow> \<exists>e i. build_block_info pv e i = Some b"
  by (induction pv s xs rule: probe_selectors.induct) (auto split: if_splits option.splits)

lemma extract_content_blocks_built:
  "b \<in> set (extract_content_blocks pv s) \<Longrightarrow> \<exists>e i. build_block_info pv e i = Some b"
proof -
  assume "b \<in> set (extract_content_blocks pv s)"
  then have "b \<in> set (collect_blocks pv
               (enumerate 0 (soup_find_all [''article'', ''main'', ''section'', ''div''] s)))"
    unfolding extract_content_blocks_def Let_def
    by (auto dest: in_set_takeD)
  then show ?thesis by (rule collect_blocks_built)
qed

lemma candidate_list_built:
  "b \<in> set (candidate_list pv s) \<Longrightarrow> \<exists>e i. build_block_info pv e i = Some b"
  unfolding candidate_list_def Let_def extract_schema_block_def
  by (auto split: option.splits dest: extract_content_blocks_built probe_selectors_built)

text \<open>
  C4. Every block of the candidate scorer and the block of the schema strategy have at least
  40 words, and a tag whose collapsed visible text has fewer than 40 words gives no block.
\<close>

theorem blocks_have_40_words:
  "(\<forall>b \<in> set (extract_content_blocks pv s). 40 \<le> word_count b) \<and>
   (\<forall>b. extract_schema_block pv s = Some b \<longrightarrow> 40 \<le> word_count b) \<and>
   (length (py_split (clean_text (get_text_sep e))) < 40 \<longrightarrow> build_block_info pv e idx = None)"
proof (intro conjI ballI allI impI)
  fix b assume "b \<in> set (extract_content_blocks pv s)"
  then show "40 \<le> word_count b"
    by (auto dest!: extract_content_blocks_built build_block_info_word_count)
next
  fix b assume "extract_schema_block pv s = Some b"
  then show "40 \<le> word_count b"
    unfolding extract_schema_block_def
    by (auto dest!: probe_selectors_built build_block_info_word_count)
next
  assume "length (py_split (clean_text (get_text_sep e))) < 40"
  then show "build_block_info pv e idx = None"
    by (simp add: build_block_info_def Let_def)
qed

theorem blocks_have_40_words_witness:
  "map word_count (extract_content_blocks (example_provider [] None) (page [article_div40])) = [40] \<and>
   map_option word_count (extract_schema_block (example_provider [] None) (page [article_div40])) = Some 40 \<and>
   length (py_split (clean_text (get_text_sep (Element ''div'' None [] [Text (words 39)])))) < 40 \<and>
   build_block_info (example_provider [] None) (Element ''div'' None [] [Text (words 39)]) (Position 0) = None"
proof -
  have a: "map word_count (extract_content_blocks (example_provider [] None) (page [article_div40])) = [40]"
    by code_simp
  have b: "map_option word_count (extract_schema_block (example_provider [] None) (page [article_div40])) = Some 40"
    by code_simp
  have c: "length (py_split (clean_text (get_text_sep (Element ''div'' None [] [Text (words 39)])))) < 40"
    by code_simp
  have d: "build_block_info (example_provider [] None) (Element ''div'' None [] [Text (words 39)]) (Position 0) = None"
    using blocks_have_40_words [of "example_provider [] None" "page [article_div40]"
            "Element ''div'' None [] [Text (words 39)]" "Position 0"] c
    by blast
  show ?thesis using a b c d by blast
qed

section \<open>What survives the noise filter\<close>

lemma has_name_decompose_all: "has_name ns (decompose_all P n) = has_name ns n"
  by (cases n) (simp_all add: has_name_def)

lemma should_skip_decompose_all: "should_skip_element (decompose_all P n) = should_skip_element n"
  by (cases n) simp_all

lemma get_attr_decompose_all: "get_attr (decompose_all P n) k = get_attr n k"
  by (cases n) (simp_all add: get_attr_def)

lemma elements_decompose_all:
  "\<not> P n \<Longrightarrow> x \<in> set (elements (decompose_all P n)) \<Longrightarrow>
   \<exists>e \<in> set (elements n). \<not> P e \<and> x = decompose_all P e"
proof (induction n arbitrary: x)
  case (Text s)
  then show ?case by simp
next
  case (Element t cl ats cs)
  show ?case
  proof (cases "x = decompose_all P (Element t cl ats cs)")
    case True
    with Element.prems(1) show ?thesis by auto
  next
    case False
    with Element.prems(2) obtain c where c: "c \<in> set cs" "\<not> P c"
        and x: "x \<in> set (elements (decompose_all P c))"
      by auto
    from Element.IH [OF c(1) c(2) x] obtain e
      where "e \<in> set (elements c)" "\<not> P e" "x = decompose_all P e"
      by blast
    with c(1) show ?thesis by auto
  qed
qed

lemma soup_elements_decompose_soup:
  "x \<in> set (soup_elements (decompose_soup P s)) \<Longrightarrow>
   \<exists>e \<in> set (soup_elements s). \<not> P e \<and> x = decompose_all P e"
proof -
  assume "x \<in> set (soup_elements (decompose_soup P s))"
  then obtain c where c: "c \<in> set s" "\<not> P c" and x: "x \<in> set (elements (decompose_all P c))"
    unfolding soup_elements_def decompose_soup_def by auto
  from elements_decompose_all [OF c(2) x] c(1) show ?thesis
    unfolding soup_elements_def by auto
qed

lemma self_in_elements: "is_tag n \<Longrightarrow> n \<in> set (elements n)"
  by (cases n) (simp_all add: is_tag_def)

lemma decompose_all_id:
  assumes leaf: "\<And>s. \<not> Q (Text s)"
  shows "(\<And>e. e \<in> set (elements n) \<Longrightarrow> \<not> Q e) \<Longrightarrow> decompose_all Q n = n"
proof (induction n)
  case (Text s)
  then show ?case by simp
next
  case (Element t cl ats cs)
  have keep: "\<not> Q c" if "c \<in> set cs" for c
  proof (cases c)
    case (Text s)
    then show ?thesis by (simp add: leaf)
  next
    case (Element t' cl' ats' cs')
    then have "c \<in> set (elements c)" by simp
    with that have "c \<in> set (elements (node.Element t cl ats cs))" by auto
    then show ?thesis by (rule Element.prems)
  qed
  have same: "decompose_all Q c = c" if "c \<in> set cs" for c
  proof (rule Element.IH [OF that])
    fix e assume "e \<in> set (elements c)"
    with that have "e \<in> set (elements (node.Element t cl ats cs))" by auto
    then show "\<not> Q e" by (rule Element.prems)
  qed
  have "filter (\<lambda>c. \<not> Q c) cs = cs"
    using keep by (simp add: filter_id_conv)
  moreover have "map (decompose_all Q) cs = cs"
    using same by (simp add: map_idI)
  ultimately show ?case by simp
qed

lemma decompose_soup_id:
  assumes leaf: "\<And>s. \<not> Q (Text s)"
      and none: "\<And>e. e \<in> set (soup_elements s) \<Longrightarrow> \<not> Q e"
  shows "decompose_soup Q s = s"
proof -
  have keep: "\<not> Q c" if "c \<in> set s" for c
  proof (cases c)
    case (Text u)
    then show ?thesis by (simp add: leaf)
  next
    case (Element t' cl' ats' cs')
    then have "c \<in> set (elements c)" by simp
    with that have "c \<in> set (soup_elements s)" unfolding soup_elements_def by auto
    then show ?thesis by (rule none)
  qed
  have same: "decompose_all Q c = c" if "c \<in> set s" for c
  proof (rule decompose_all_id [of Q, OF leaf])
    fix e assume "e \<in> set (elements c)"
    with that have "e \<in> set (soup_elements s)" unfolding soup_elements_def by auto
    then show "\<not> Q e" by (rule none)
  qed
  have "filter (\<lambda>c. \<not> Q c) s = s"
    using keep by (simp add: filter_id_conv)
  moreover have "map (decompose_all Q) s = s"
    using same by (simp add: map_idI)
  ultimately show ?thesis by (simp add: decompose_soup_def)
qed

lemma prepared_elements:
  assumes "x \<in> set (soup_elements (prepare_content_soup s))"
  shows "\<not> should_skip_element x \<and>
         \<not> has_name [''script'', ''style'', ''noscript'', ''iframe'', ''svg'', ''canvas''] x"
proof -
  let ?strip = "has_name [''script'', ''style'', ''noscript'', ''iframe'', ''svg'', ''canvas'']"
  from assms obtain e where e: "e \<in> set (soup_elements (decompose_soup ?strip s))"
      "\<not> should_skip_element e" "x = decompose_all should_skip_element e"
    unfolding prepare_content_soup_def by (blast dest: soup_elements_decompose_soup)
  from e(1) obtain e0 where e0: "\<not> ?strip e0" "e = decompose_all ?strip e0"
    by (blast dest: soup_elements_decompose_soup)
  have "\<not> should_skip_element x"
    using e(2,3) by (simp add: should_skip_decompose_all)
  moreover have "\<not> ?strip x"
    using e(3) e0 by (simp add: has_name_decompose_all)
  ultimately show ?thesis by simp
qed

text \<open>
  C7. Filtering a filtered tree changes nothing: the second run returns the tree it is
  given, and the removal test is false on every tag of a filtered tree.
\<close>

theorem prepare_content_soup_idempotent:
  "prepare_content_soup (prepare_content_soup s) = prepare_content_soup s \<and>
   list_all (\<lambda>e. \<not> should_skip_element e) (soup_elements (prepare_content_soup s))"
proof
  let ?strip = "has_name [''script'', ''style'', ''noscript'', ''iframe'', ''svg'', ''canvas'']"
  have "decompose_soup ?strip (prepare_content_soup s) = prepare_content_soup s"
  proof (rule decompose_soup_id)
    show "\<not> ?strip (Text u)" for u
      by (simp add: has_name_def)
    show "\<not> ?strip e" if "e \<in> set (soup_elements (prepare_content_soup s))" for e
      using that by (simp add: prepared_elements)
  qed
  moreover have "decompose_soup should_skip_element (prepare_content_soup s) = prepare_content_soup s"
    by (rule decompose_soup_id) (simp_all add: prepared_elements)
  ultimately show "prepare_content_soup (prepare_content_soup s) = prepare_content_soup s"
    by (simp add: prepare_content_soup_def [of "prepare_content_soup s"])
  show "list_all (\<lambda>e. \<not> should_skip_element e) (soup_elements (prepare_content_soup s))"
    by (simp add: list_all_iff prepared_elements)
qed

section \<open>The embedded player\<close>

lemma find_iframe_prepared: "find_iframe (prepare_content_soup s) = None"
proof -
  have "soup_find_all [''iframe''] (prepare_content_soup s) = []"
    unfolding soup_find_all_def filter_empty_conv
  proof
    fix x assume "x \<in> set (soup_elements (prepare_content_soup s))"
    then have "\<not> has_name [''script'', ''style'', ''noscript'', ''iframe'', ''svg'', ''canvas''] x"
      by (simp add: prepared_elements)
    then show "\<not> has_name [''iframe''] x"
      by (cases x) (simp_all add: has_name_def)
  qed
  then show ?thesis by (simp add: find_iframe_def)
qed

text \<open>
  C8 does not hold of the code. The media are read from the filtered tree, from which
  \<^verbatim>\<open>_prepare_content_soup\<close> has already removed every iframe: no iframe is ever found there, and
  a page whose only content is an iframe with a src gets no video.
\<close>

theorem iframe_never_reaches_videos:
  "find_iframe (prepare_content_soup s) = None \<and>
   map (\<lambda>e. get_attr e ''src'') (soup_find_all [''iframe''] (bs_parse iframe_provider []))
     = [Some ''https://player.example/v/1''] \<and>
   videos (art_media (pi_article (parse_html iframe_provider [] []))) = []"
proof (intro conjI)
  show "find_iframe (prepare_content_soup s) = None"
    by (rule find_iframe_prepared)
  show "map (\<lambda>e. get_attr e ''src'') (soup_find_all [''iframe''] (bs_parse iframe_provider []))
     = [Some ''https://player.example/v/1'']"
    by code_simp
  show "videos (art_media (pi_article (parse_html iframe_provider [] []))) = []"
    by code_simp
qed

section \<open>Caps\<close>

lemma links_loop_length:
  "length links < limit \<Longrightarrow> length (links_loop pv base_url limit links xs) \<le> limit"
  by (induction xs arbitrary: links) (auto simp: Let_def)

lemma extract_links_length: "0 < limit \<Longrightarrow> length (extract_links pv s base_url limit) \<le> limit"
  unfolding extract_links_def by (rule links_loop_length) simp

text \<open>
  C9. In the article of every page the gallery has at most 5 images, the videos are at
  most 3 and the links at most 40.
\<close>

theorem article_caps:
  "length (gallery (art_media (pi_article (parse_html pv html_content url)))) \<le> 5 \<and>
   length (videos (art_media (pi_article (parse_html pv html_content url)))) \<le> 3 \<and>
   length (art_links (pi_article (parse_html pv html_content url))) \<le> 40"
proof (intro conjI)
  show "length (gallery (art_media (pi_article (parse_html pv html_content url)))) \<le> 5"
    by (simp add: parse_html_def build_article_section_def extract_article_media_def Let_def)
  show "length (videos (art_media (pi_article (parse_html pv html_content url)))) \<le> 3"
    by (simp add: parse_html_def build_article_section_def extract_article_media_def Let_def)
  show "length (art_links (pi_article (parse_html pv html_content url))) \<le> 40"
    by (simp add: parse_html_def build_article_section_def extract_links_from_main_def Let_def
          extract_links_length split: option.splits)
qed

section \<open>Where the blocks come from\<close>

lemma collect_blocks_from:
  "b \<in> set (collect_blocks pv xs) \<Longrightarrow>
   \<exists>x \<in> set xs. build_block_info pv (snd x) (Position (fst x)) = Some b"
  by (induction pv xs rule: collect_blocks.induct) (auto split: if_splits option.splits)

lemma select_one_in_soup: "select_one sel s = Some e \<Longrightarrow> e \<in> set (soup_elements s)"
  by (auto simp: select_one_def find_Some_iff)

lemma probe_selectors_from:
  "probe_selectors pv s xs = Some b \<Longrightarrow>
   \<exists>e \<in> set (soup_elements s). \<exists>i. build_block_info pv e i = Some b"
  by (induction pv s xs rule: probe_selectors.induct)
     (auto split: if_splits option.splits dest: select_one_in_soup)

lemma extract_content_blocks_from:
  assumes "b \<in> set (extract_content_blocks pv s)"
  shows "\<exists>e \<in> set (soup_elements s). \<exists>i. build_block_info pv e i = Some b"
proof -
  let ?xs = "enumerate 0 (soup_find_all [''article'', ''main'', ''section'', ''div''] s)"
  from assms have "b \<in> set (collect_blocks pv ?xs)"
    unfolding extract_content_blocks_def Let_def by (auto dest: in_set_takeD)
  then obtain x where x: "x \<in> set ?xs" "build_block_info pv (snd x) (Position (fst x)) = Some b"
    by (blast dest: collect_blocks_from)
  from x(1) have "snd x \<in> set (soup_elements s)"
    by (auto simp: in_set_enumerate_eq soup_find_all_def dest: nth_mem)
  with x(2) show ?thesis by blast
qed

lemma candidate_list_from:
  "b \<in> set (candidate_list pv s) \<Longrightarrow>
   \<exists>e \<in> set (soup_elements s). \<exists>i. build_block_info pv e i = Some b"
  unfolding candidate_list_def Let_def extract_schema_block_def
  by (auto split: option.splits dest: extract_content_blocks_from probe_selectors_from)

lemma probe_selectors_selected:
  "probe_selectors pv s xs = Some b \<Longrightarrow>
   \<exists>x \<in> set xs. \<exists>e. select_one (snd x) s = Some e \<and> build_block_info pv e (Schema (fst x)) = Some b"
  by (induction pv s xs rule: probe_selectors.induct) (auto split: if_splits option.splits)

lemma build_block_info_small:
  "length (py_split (clean_text (get_text_sep e))) < 40 \<Longrightarrow> build_block_info pv e i = None"
  by (simp add: build_block_info_def Let_def)

lemma extract_content_blocks_empty:
  assumes "\<And>e. e \<in> set (soup_find_all [''article'', ''main'', ''section'', ''div''] s) \<Longrightarrow>
             length (py_split (clean_text (get_text_sep e))) < 40"
  shows "extract_content_blocks pv s = []"
proof -
  let ?xs = "enumerate 0 (soup_find_all [''article'', ''main'', ''section'', ''div''] s)"
  have "collect_blocks pv ?xs = []"
  proof (rule ccontr)
    assume "collect_blocks pv ?xs \<noteq> []"
    then obtain b where "b \<in> set (collect_blocks pv ?xs)"
      by (cases "collect_blocks pv ?xs") auto
    then obtain x where x: "x \<in> set ?xs" "build_block_info pv (snd x) (Position (fst x)) = Some b"
      by (blast dest: collect_blocks_from)
    from x(1) have "snd x \<in> set (soup_find_all [''article'', ''main'', ''section'', ''div''] s)"
      by (auto simp: in_set_enumerate_eq dest: nth_mem)
    then have "build_block_info pv (snd x) (Position (fst x)) = None"
      by (intro build_block_info_small assms)
    with x(2) show False by simp
  qed
  then show ?thesis by (simp add: extract_content_blocks_def)
qed

lemma extract_schema_block_none:
  assumes "\<And>sel e. sel \<in> set schema_selectors \<Longrightarrow> select_one sel s = Some e \<Longrightarrow>
             length (py_split (clean_text (get_text_sep e))) < 40"
  shows "extract_schema_block pv s = None"
proof (rule ccontr)
  assume "extract_schema_block pv s \<noteq> None"
  then obtain b where "probe_selectors pv s (enumerate 0 schema_selectors) = Some b"
    by (auto simp: extract_schema_block_def)
  then obtain x e where x: "x \<in> set (enumerate 0 schema_selectors)"
      "select_one (snd x) s = Some e" "build_block_info pv e (Schema (fst x)) = Some b"
    by (blast dest: probe_selectors_selected)
  from x(1) have "snd x \<in> set schema_selectors"
    by (auto simp: in_set_enumerate_eq dest: nth_mem)
  from assms [OF this x(2)] have "build_block_info pv e (Schema (fst x)) = None"
    by (rule build_block_info_small)
  with x(3) show False by simp
qed

section \<open>The schema block\<close>

text \<open>
  C3, as stated, fails in its bound: the schema block is inserted after the scorer has cut its
  list to ten, so a page of ten blocks one of which the schema strategy finds gives a list of
  eleven.
\<close>

theorem eleven_candidates:
  "extract_schema_block (example_provider [] None) (prepare_content_soup ten_blocks_page) \<noteq> None \<and>
   length (candidate_list (example_provider [] None) (prepare_content_soup ten_blocks_page)) = 11"
  by code_simp

text \<open>
  C3, amended. Whenever the schema strategy gives a block, that block is at position 0 of
  the list handed to the arbiter, in front of the at most ten ranked blocks of the scorer, so
  the list has at most eleven blocks; it is not sorted again, and without a sufficient
  readability result the arbiter takes the schema block whatever its score.
\<close>

theorem schema_block_first:
  "extract_schema_block pv s = Some b \<Longrightarrow>
   candidate_list pv s = b # extract_content_blocks pv s \<and>
   length (extract_content_blocks pv s) \<le> 10 \<and>
   length (candidate_list pv s) \<le> 11 \<and>
   mc_score (choose_main_content None (candidate_list pv s) fallback_title) = Some (score b)"
  by (simp add: candidate_list_def extract_content_blocks_def choose_main_content_def
        heuristic_content_def Let_def)

theorem schema_block_first_witness:
  "extract_schema_block (example_provider [] None) ten_blocks_page \<noteq> None \<and>
   candidate_list (example_provider [] None) ten_blocks_page =
     the (extract_schema_block (example_provider [] None) ten_blocks_page) #
       extract_content_blocks (example_provider [] None) ten_blocks_page \<and>
   length (candidate_list (example_provider [] None) ten_blocks_page) \<le> 11"
proof -
  have ne: "extract_schema_block (example_provider [] None) ten_blocks_page \<noteq> None"
    by code_simp
  then obtain b where b: "extract_schema_block (example_provider [] None) ten_blocks_page = Some b"
    by blast
  from schema_block_first [OF b, of "[]"] b ne show ?thesis by simp
qed

section \<open>The last tier\<close>

text \<open>
  C2, as stated, fails twice. With no candidate block and a readability result of fewer
  than 80 words, the arbiter returns that result (\<^verbatim>\<open>readability_content or {...}\<close>), not the
  unknown object: a page of one paragraph of 50 words and no container has no candidate, and
  its article has the source readability and the confidence 0.63. And a page whose
  containers all have fewer than 40 words can still have a candidate, the block of the schema
  strategy, whose selectors also match tags that are no containers: beside a \<^verbatim>\<open>div\<close> of 30
  words, a paragraph of 40 words marked as the article body is the one candidate, and with
  an empty readability result the article has the source heuristic and the confidence 0.43.
\<close>

theorem short_readability_or_schema_block_wins:
  "candidate_list short_page_provider (prepare_content_soup (bs_parse short_page_provider [])) = [] \<and>
   map_option mc_word_count (extract_main_content short_page_provider []) = Some 50 \<and>
   body_source (art_body (pi_article (parse_html short_page_provider [] []))) = ''readability'' \<and>
   confidence (art_stats (pi_article (parse_html short_page_provider [] []))) = 63 / 100 \<and>
   soup_find_all [''article'', ''main'', ''section'', ''div'']
     (prepare_content_soup (bs_parse marked_paragraph_provider [])) = [div30] \<and>
   length (py_split (clean_text (get_text_sep div30))) = 30 \<and>
   extract_main_content marked_paragraph_provider [] = None \<and>
   length (candidate_list marked_paragraph_provider
     (prepare_content_soup (bs_parse marked_paragraph_provider []))) = 1 \<and>
   body_source (art_body (pi_article (parse_html marked_paragraph_provider [] []))) = ''heuristic'' \<and>
   confidence (art_stats (pi_article (parse_html marked_paragraph_provider [] []))) = 43 / 100"
  by code_simp

lemma article_of_main:
  "confidence (art_stats (pi_article (parse_html pv h url))) =
     py_round (mc_confidence (choose_main_content (extract_main_content pv h)
        (candidate_list pv (prepare_content_soup (bs_parse pv h))) (page_title (bs_parse pv h)))) 2 \<and>
   body_source (art_body (pi_article (parse_html pv h url))) =
     mc_source (choose_main_content (extract_main_content pv h)
        (candidate_list pv (prepare_content_soup (bs_parse pv h))) (page_title (bs_parse pv h)))"
  by (simp add: parse_html_def build_article_section_def Let_def)

lemma py_round_one_fifth: "py_round (1 / 5) 2 = 1 / 5"
  by (simp add: py_round_def round_half_even_def Let_def)

text \<open>
  C2, amended. With no candidate block and an empty readability result the arbiter
  returns the empty object of source unknown and confidence exactly 0.2; with no candidate
  block and a readability result that is not empty and has fewer than 80 words it returns
  that result. Where every article, main, section and div of the filtered tree has fewer
  than 40 words, the list of the scorer is empty; where moreover the tag that each schema
  selector selects, if it selects one, has fewer than 40 words, the candidate list handed to
  the arbiter is empty, and if the readability result is empty as well, the article has the
  source unknown and the confidence exactly 0.2.
\<close>

theorem fall_through_to_unknown:
  "choose_main_content None [] fallback_title = unknown_content fallback_title \<and>
   mc_source (unknown_content fallback_title) = ''unknown'' \<and>
   mc_text (unknown_content fallback_title) = [] \<and>
   mc_confidence (unknown_content fallback_title) = 1 / 5 \<and>
   (mc_word_count rc < 80 \<longrightarrow> choose_main_content (Some rc) [] fallback_title = rc) \<and>
   ((\<forall>e \<in> set (soup_find_all [''article'', ''main'', ''section'', ''div'']
               (prepare_content_soup (bs_parse pv h))).
        length (py_split (clean_text (get_text_sep e))) < 40) \<longrightarrow>
      extract_content_blocks pv (prepare_content_soup (bs_parse pv h)) = [] \<and>
      ((\<forall>sel \<in> set schema_selectors. \<forall>e.
           select_one sel (prepare_content_soup (bs_parse pv h)) = Some e \<longrightarrow>
           length (py_split (clean_text (get_text_sep e))) < 40) \<longrightarrow>
         candidate_list pv (prepare_content_soup (bs_parse pv h)) = [] \<and>
         (extract_main_content pv h = None \<longrightarrow>
            body_source (art_body (pi_article (parse_html pv h url))) = ''unknown'' \<and>
            confidence (art_stats (pi_article (parse_html pv h url))) = 1 / 5)))"
proof (intro conjI impI)
  show "choose_main_content None [] fallback_title = unknown_content fallback_title"
    by (simp add: choose_main_content_def)
  show "mc_source (unknown_content fallback_title) = ''unknown''"
    by (simp add: unknown_content_def)
  show "mc_text (unknown_content fallback_title) = []"
    by (simp add: unknown_content_def)
  show "mc_confidence (unknown_content fallback_title) = 1 / 5"
    by (simp add: unknown_content_def)
  show "choose_main_content (Some rc) [] fallback_title = rc" if "mc_word_count rc < 80"
    using that by (simp add: choose_main_content_def)
next
  assume small: "\<forall>e \<in> set (soup_find_all [''article'', ''main'', ''section'', ''div'']
               (prepare_content_soup (bs_parse pv h))).
        length (py_split (clean_text (get_text_sep e))) < 40"
  then show scorer: "extract_content_blocks pv (prepare_content_soup (bs_parse pv h)) = []"
    by (intro extract_content_blocks_empty) blast
  assume selected: "\<forall>sel \<in> set schema_selectors. \<forall>e.
           select_one sel (prepare_content_soup (bs_parse pv h)) = Some e \<longrightarrow>
           length (py_split (clean_text (get_text_sep e))) < 40"
  then have schema: "extract_schema_block pv (prepare_content_soup (bs_parse pv h)) = None"
    by (intro extract_schema_block_none) blast
  show none: "candidate_list pv (prepare_content_soup (bs_parse pv h)) = []"
    by (simp add: candidate_list_def scorer schema)
  assume empty: "extract_main_content pv h = None"
  show "body_source (art_body (pi_article (parse_html pv h url))) = ''unknown''"
    by (simp add: article_of_main none empty choose_main_content_def unknown_content_def)
  show "confidence (art_stats (pi_article (parse_html pv h url))) = 1 / 5"
    by (simp add: article_of_main none empty choose_main_content_def unknown_content_def
          py_round_one_fifth)
qed

theorem fall_through_to_unknown_witness:
  "extract_main_content short_page_provider [] \<noteq> None \<and>
   mc_word_count (the (extract_main_content short_page_provider [])) < 80 \<and>
   choose_main_content (extract_main_content short_page_provider []) [] ''T'' =
     the (extract_main_content short_page_provider []) \<and>
   soup_find_all [''article'', ''main'', ''section'', ''div'']
     (prepare_content_soup (bs_parse small_blocks_provider [])) = [div30, div30, div30] \<and>
   length (py_split (clean_text (get_text_sep div30))) = 30 \<and>
   map (\<lambda>e. length (py_split (clean_text (get_text_sep e))))
     (prepare_content_soup (bs_parse small_blocks_provider [])) = [90] \<and>
   list_all (\<lambda>sel. select_one sel (prepare_content_soup (bs_parse small_blocks_provider [])) = None)
     schema_selectors \<and>
   extract_main_content small_blocks_provider [] = None \<and>
   extract_content_blocks small_blocks_provider
     (prepare_content_soup (bs_parse small_blocks_provider [])) = [] \<and>
   candidate_list small_blocks_provider (prepare_content_soup (bs_parse small_blocks_provider [])) = [] \<and>
   body_source (art_body (pi_article (parse_html small_blocks_provider [] []))) = ''unknown'' \<and>
   confidence (art_stats (pi_article (parse_html small_blocks_provider [] []))) = 1 / 5"
proof -
  let ?cs = "prepare_content_soup (bs_parse small_blocks_provider [])"
  have ne: "extract_main_content short_page_provider [] \<noteq> None"
    by code_simp
  then obtain rc where rc: "extract_main_content short_page_provider [] = Some rc"
    by blast
  have "map_option mc_word_count (extract_main_content short_page_provider []) = Some 50"
    by code_simp
  with rc have wc: "mc_word_count rc < 80" by simp
  have divs: "soup_find_all [''article'', ''main'', ''section'', ''div''] ?cs = [div30, div30, div30]"
    by code_simp
  have thirty: "length (py_split (clean_text (get_text_sep div30))) = 30"
    by code_simp
  have ninety: "map (\<lambda>e. length (py_split (clean_text (get_text_sep e)))) ?cs = [90]"
    by code_simp
  have unselected: "list_all (\<lambda>sel. select_one sel ?cs = None) schema_selectors"
    by code_simp
  have empty: "extract_main_content small_blocks_provider [] = None"
    by code_simp
  have small: "\<forall>e \<in> set (soup_find_all [''article'', ''main'', ''section'', ''div''] ?cs).
        length (py_split (clean_text (get_text_sep e))) < 40"
    unfolding divs using thirty by simp
  have selected: "\<forall>sel \<in> set schema_selectors. \<forall>e.
        select_one sel ?cs = Some e \<longrightarrow> length (py_split (clean_text (get_text_sep e))) < 40"
    using unselected unfolding list_all_iff by simp
  from fall_through_to_unknown [of "''T''" rc short_page_provider "[]" "[]"] wc
  have a: "choose_main_content (Some rc) [] ''T'' = rc"
    by blast
  from fall_through_to_unknown [of "[]" rc small_blocks_provider "[]" "[]"] small selected empty
  have b: "extract_content_blocks small_blocks_provider ?cs = [] \<and>
     candidate_list small_blocks_provider ?cs = [] \<and>
     body_source (art_body (pi_article (parse_html small_blocks_provider [] []))) = ''unknown'' \<and>
     confidence (art_stats (pi_article (parse_html small_blocks_provider [] []))) = 1 / 5"
    by blast
  show ?thesis using ne rc wc a divs thirty ninety unselected empty b by simp
qed

section \<open>Bounds of the confidence\<close>

lemma extract_main_content_confidence:
  "extract_main_content pv h = Some rc \<Longrightarrow>
   3 / 5 \<le> mc_confidence rc \<and> mc_confidence rc \<le> 19 / 20 \<and> mc_source rc = ''readability''"
  by (auto simp: extract_main_content_def Let_def min_def split: option.splits prod.splits if_splits)

lemma score_block_nonneg: "0 \<le> score_block wc ld pc h"
  by (simp add: score_block_def Let_def min_def)

lemma build_block_info_score: "build_block_info pv e i = Some b \<Longrightarrow> 0 \<le> score b"
  by (auto simp: build_block_info_def Let_def py_round_nonneg score_block_nonneg split: if_splits)

lemma candidate_list_score: "b \<in> set (candidate_list pv s) \<Longrightarrow> 0 \<le> score b"
  by (blast dest: candidate_list_from build_block_info_score)

lemma heuristic_content_confidence:
  "0 \<le> score b \<Longrightarrow>
   2 / 5 \<le> mc_confidence (heuristic_content b fb) \<and>
   mc_confidence (heuristic_content b fb) \<le> 17 / 20 \<and>
   mc_source (heuristic_content b fb) = ''heuristic''"
  by (simp add: heuristic_content_def Let_def min_def)

lemma arbiter_cases:
  assumes rc_ok: "\<And>r. rc = Some r \<Longrightarrow>
            3 / 5 \<le> mc_confidence r \<and> mc_confidence r \<le> 19 / 20 \<and> mc_source r = ''readability''"
      and blocks_ok: "\<And>b. b \<in> set blocks \<Longrightarrow> 0 \<le> score b"
  shows "(mc_source (choose_main_content rc blocks fb) = ''unknown'' \<and>
          mc_confidence (choose_main_content rc blocks fb) = 1 / 5 \<and> rc = None \<and> blocks = []) \<or>
         (mc_source (choose_main_content rc blocks fb) = ''heuristic'' \<and>
          2 / 5 \<le> mc_confidence (choose_main_content rc blocks fb) \<and>
          mc_confidence (choose_main_content rc blocks fb) \<le> 17 / 20 \<and> blocks \<noteq> []) \<or>
         (mc_source (choose_main_content rc blocks fb) = ''readability'' \<and>
          3 / 5 \<le> mc_confidence (choose_main_content rc blocks fb) \<and>
          mc_confidence (choose_main_content rc blocks fb) \<le> 19 / 20 \<and> rc \<noteq> None)"
proof (cases rc)
  case None
  show ?thesis
  proof (cases blocks)
    case Nil
    with None show ?thesis
      by (simp add: choose_main_content_def unknown_content_def)
  next
    case (Cons best rest)
    then have "0 \<le> score best" by (simp add: blocks_ok)
    from heuristic_content_confidence [OF this, of fb] None Cons show ?thesis
      by (simp add: choose_main_content_def)
  qed
next
  case (Some r)
  note r = rc_ok [OF Some]
  show ?thesis
  proof (cases "80 \<le> mc_word_count r")
    case True
    with Some r show ?thesis
      by (simp add: choose_main_content_def)
  next
    case False
    show ?thesis
    proof (cases blocks)
      case Nil
      with Some False r show ?thesis
        by (simp add: choose_main_content_def)
    next
      case (Cons best rest)
      then have "0 \<le> score best" by (simp add: blocks_ok)
      from heuristic_content_confidence [OF this, of fb] Some False Cons show ?thesis
        by (simp add: choose_main_content_def)
    qed
  qed
qed

lemma py_round_bounds_2:
  "2 / 5 \<le> x \<Longrightarrow> 2 / 5 \<le> py_round x 2"
  "3 / 5 \<le> x \<Longrightarrow> 3 / 5 \<le> py_round x 2"
  "x \<le> 17 / 20 \<Longrightarrow> py_round x 2 \<le> 17 / 20"
  "x \<le> 19 / 20 \<Longrightarrow> py_round x 2 \<le> 19 / 20"
  using py_round_lower [of 40 2 x] py_round_lower [of 60 2 x]
        py_round_upper [of x 85 2] py_round_upper [of x 95 2]
  by simp_all

text \<open>
  C10. The confidence in the stats of the article of every page lies between 0.2 and 0.95.
  It is exactly 0.2 if and only if the source is unknown, which is the case if and only if
  the readability result and the candidate list are both empty; and it is at least 0.4 when
  the source is heuristic.
\<close>

theorem confidence_bounds:
  "1 / 5 \<le> confidence (art_stats (pi_article (parse_html pv h url))) \<and>
   confidence (art_stats (pi_article (parse_html pv h url))) \<le> 19 / 20 \<and>
   (confidence (art_stats (pi_article (parse_html pv h url))) = 1 / 5 \<longleftrightarrow>
      body_source (art_body (pi_article (parse_html pv h url))) = ''unknown'') \<and>
   (body_source (art_body (pi_article (parse_html pv h url))) = ''unknown'' \<longleftrightarrow>
      extract_main_content pv h = None \<and>
      candidate_list pv (prepare_content_soup (bs_parse pv h)) = []) \<and>
   (body_source (art_body (pi_article (parse_html pv h url))) = ''heuristic'' \<longrightarrow>
      2 / 5 \<le> confidence (art_stats (pi_article (parse_html pv h url))))"
proof -
  let ?rc = "extract_main_content pv h"
  let ?bs = "candidate_list pv (prepare_content_soup (bs_parse pv h))"
  let ?m = "choose_main_content ?rc ?bs (page_title (bs_parse pv h))"
  have c: "confidence (art_stats (pi_article (parse_html pv h url))) = py_round (mc_confidence ?m) 2"
    and s: "body_source (art_body (pi_article (parse_html pv h url))) = mc_source ?m"
    using article_of_main [of pv h url] by simp_all
  have rc_ok: "3 / 5 \<le> mc_confidence r \<and> mc_confidence r \<le> 19 / 20 \<and> mc_source r = ''readability''"
    if "?rc = Some r" for r
    using that by (rule extract_main_content_confidence)
  have bs_ok: "0 \<le> score b" if "b \<in> set ?bs" for b
    using that by (rule candidate_list_score)
  have d: "(mc_source ?m = ''unknown'' \<and> mc_confidence ?m = 1 / 5 \<and> ?rc = None \<and> ?bs = []) \<or>
           (mc_source ?m = ''heuristic'' \<and> 2 / 5 \<le> mc_confidence ?m \<and>
            mc_confidence ?m \<le> 17 / 20 \<and> ?bs \<noteq> []) \<or>
           (mc_source ?m = ''readability'' \<and> 3 / 5 \<le> mc_confidence ?m \<and>
            mc_confidence ?m \<le> 19 / 20 \<and> ?rc \<noteq> None)"
    by (rule arbiter_cases) (rule rc_ok, assumption, rule bs_ok, assumption)
  from d show ?thesis
  proof (elim disjE conjE)
    assume u: "mc_source ?m = ''unknown''" "mc_confidence ?m = 1 / 5" "?rc = None" "?bs = []"
    have cu: "py_round (mc_confidence ?m) 2 = 1 / 5"
      unfolding u(2) by (rule py_round_one_fifth)
    show ?thesis
      unfolding c s cu u(1) using u(3,4) by simp
  next
    assume heuristic: "mc_source ?m = ''heuristic''" "2 / 5 \<le> mc_confidence ?m"
      "mc_confidence ?m \<le> 17 / 20" "?bs \<noteq> []"
    from py_round_bounds_2(1) [OF heuristic(2)] py_round_bounds_2(3) [OF heuristic(3)]
    have "2 / 5 \<le> py_round (mc_confidence ?m) 2" "py_round (mc_confidence ?m) 2 \<le> 17 / 20" .
    with heuristic(1,4) show ?thesis
      unfolding c s by simp
  next
    assume readability: "mc_source ?m = ''readability''" "3 / 5 \<le> mc_confidence ?m"
      "mc_confidence ?m \<le> 19 / 20" "?rc \<noteq> None"
    from py_round_bounds_2(2) [OF readability(2)] py_round_bounds_2(4) [OF readability(3)]
    have "3 / 5 \<le> py_round (mc_confidence ?m) 2" "py_round (mc_confidence ?m) 2 \<le> 19 / 20" .
    with readability(1,4) show ?thesis
      unfolding c s by simp
  qed
qed

theorem confidence_bounds_witness:
  "body_source (art_body (pi_article (parse_html one_block_provider [] []))) = ''heuristic'' \<and>
   confidence (art_stats (pi_article (parse_html one_block_provider [] []))) = 43 / 100 \<and>
   2 / 5 \<le> confidence (art_stats (pi_article (parse_html one_block_provider [] []))) \<and>
   body_source (art_body (pi_article (parse_html iframe_provider [] []))) = ''unknown'' \<and>
   confidence (art_stats (pi_article (parse_html iframe_provider [] []))) = 1 / 5"
proof -
  have a: "body_source (art_body (pi_article (parse_html one_block_provider [] []))) = ''heuristic''"
    by code_simp
  have b: "confidence (art_stats (pi_article (parse_html one_block_provider [] []))) = 43 / 100"
    by code_simp
  have u: "body_source (art_body (pi_article (parse_html iframe_provider [] []))) = ''unknown''"
    by code_simp
  from confidence_bounds [of one_block_provider "[]" "[]"] a
  have c: "2 / 5 \<le> confidence (art_stats (pi_article (parse_html one_block_provider [] [])))"
    by blast
  from confidence_bounds [of iframe_provider "[]" "[]"] u
  have d: "confidence (art_stats (pi_article (parse_html iframe_provider [] []))) = 1 / 5"
    by blast
  show ?thesis using a b c d u by blast
qed

end
